theory Spec2Isabelle
  imports Main "HOL-Library.Sublist" "HOL-Library.AList"
begin

section \<open>The rmlui recipe (recipes/rmlui/4.x/conanfile.py)\<close>

text \<open>
  The recipe is Python over the Conan API. Text is modelled as \<open>string\<close>, read as a
  sequence of ASCII code points; Python's unbounded integers are \<open>int\<close>; every
  \<^verbatim>\<open>raise\<close> is a value of the type \<open>error\<close> on the left of a sum.
\<close>

datatype error =
  ValueError | KeyError | FileNotFoundError | ConanInvalidConfiguration | ConanException

subsection \<open>Python primitives used by the version comparison\<close>

text \<open>
  \<^verbatim>\<open>v.split(".")\<close>: the pieces between the dots, empty pieces kept, so the
  empty string gives one empty piece.
\<close>

fun split_dot :: "string \<Rightarrow> string list" where
  "split_dot [] = [[]]"
| "split_dot (c # cs) =
     (if c = CHR ''.'' then [] # split_dot cs
      else (case split_dot cs of
              [] \<Rightarrow> [[c]]
            | w # ws \<Rightarrow> (c # w) # ws))"

text \<open>
  \<^verbatim>\<open>int(v)\<close> on a string, base ten, as CPython parses it: white space is
  skipped at both ends, one sign may follow, then digits, where single underscores
  may stand between two digits. Anything else raises \<^verbatim>\<open>ValueError\<close>, here
  \<open>None\<close>. On ASCII text the white space \<^verbatim>\<open>int\<close> skips is tab, line feed,
  vertical tab, form feed, carriage return and space (codes 9 to 13 and 32); the
  separators 28 to 31 are not skipped, so \<^verbatim>\<open>int("\x1c5")\<close> raises. A text with
  more digits than \<^verbatim>\<open>sys.int_max_str_digits\<close> raises as well; the limit is
  that of Python 3.11 and later at its default, 4300, and counts the digits, not
  the sign or the underscores. Digits and spaces outside ASCII, which
  \<^verbatim>\<open>int\<close> also reads, are left out.
\<close>

definition py_isspace :: "char \<Rightarrow> bool" where
  "py_isspace c \<longleftrightarrow>
     (let n = (of_char c :: nat) in (9 \<le> n \<and> n \<le> 13) \<or> n = 32)"

definition is_digit :: "char \<Rightarrow> bool" where
  "is_digit c \<longleftrightarrow> (let n = (of_char c :: nat) in 48 \<le> n \<and> n \<le> 57)"

definition digit_value :: "char \<Rightarrow> int" where
  "digit_value c = int (of_char c) - 48"

definition strip :: "string \<Rightarrow> string" where
  "strip s = rev (dropWhile py_isspace (rev (dropWhile py_isspace s)))"

text \<open>
  The digit loop: \<open>acc\<close> is the value read so far, \<open>prev\<close> tells whether the
  character just read was an underscore. The first character is checked by the
  caller, so the loop starts after a digit.
\<close>

fun digits_from :: "int \<Rightarrow> bool \<Rightarrow> string \<Rightarrow> int option" where
  "digits_from acc prev [] = (if prev then None else Some acc)"
| "digits_from acc prev (c # cs) =
     (if is_digit c then digits_from (10 * acc + digit_value c) False cs
      else if c = CHR ''_'' \<and> \<not> prev then digits_from acc True cs
      else None)"

definition int_max_str_digits :: nat where
  "int_max_str_digits = 4300"

definition unsigned_int :: "string \<Rightarrow> int option" where
  "unsigned_int s =
     (case s of
        [] \<Rightarrow> None
      | c # cs \<Rightarrow>
          if is_digit c
          then (if int_max_str_digits < length (filter is_digit s) then None
                else digits_from (digit_value c) False cs)
          else None)"

definition py_int :: "string \<Rightarrow> int option" where
  "py_int s =
     (case strip s of
        [] \<Rightarrow> None
      | c # cs \<Rightarrow>
          if c = CHR ''+'' then unsigned_int cs
          else if c = CHR ''-'' then map_option uminus (unsigned_int cs)
          else unsigned_int (c # cs))"

text \<open>
  The list comprehension \<^verbatim>\<open>[int(v) for v in ...]\<close> converts the pieces from
  left to right and stops at the first one that raises.
\<close>

fun int_list :: "string list \<Rightarrow> error + int list" where
  "int_list [] = Inr []"
| "int_list (v # vs) =
     (case py_int v of
        None \<Rightarrow> Inl ValueError
      | Some n \<Rightarrow> (case int_list vs of Inl e \<Rightarrow> Inl e | Inr ns \<Rightarrow> Inr (n # ns)))"

text \<open>
  \<^verbatim>\<open>a < b\<close> on two lists: the first position where the items differ decides;
  when there is none, the shorter list is the smaller one.
\<close>

fun list_lt :: "int list \<Rightarrow> int list \<Rightarrow> bool" where
  "list_lt [] [] = False"
| "list_lt [] (y # ys) = True"
| "list_lt (x # xs) [] = False"
| "list_lt (x # xs) (y # ys) = (if x = y then list_lt xs ys else x < y)"

subsection \<open>validate: the version comparison\<close>

definition lazy_lt_semver :: "string \<Rightarrow> string \<Rightarrow> error + bool" where
  "lazy_lt_semver v1 v2 =
     (case int_list (split_dot v1) of
        Inl e \<Rightarrow> Inl e
      | Inr lv1 \<Rightarrow>
          (case int_list (split_dot v2) of
             Inl e \<Rightarrow> Inl e
           | Inr lv2 \<Rightarrow>
               (let min_length = min (length lv1) (length lv2)
                in Inr (list_lt (take min_length lv1) (take min_length lv2)))))"

subsection \<open>Further Python primitives\<close>

text \<open>
  \<^verbatim>\<open>content.find(search)\<close>: the lowest index where \<open>search\<close> starts, or
  \<open>-1\<close>.
\<close>

fun str_find :: "string \<Rightarrow> string \<Rightarrow> int" where
  "str_find [] search = (if search = [] then 0 else - 1)"
| "str_find (c # cs) search =
     (if prefix search (c # cs) then 0
      else (let r = str_find cs search in if r = - 1 then - 1 else r + 1))"

text \<open>
  \<^verbatim>\<open>content.replace(search, replace)\<close>: every occurrence, found from left to
  right without overlap, is replaced. An empty \<open>search\<close> matches before each
  character and at the end.
\<close>

function str_replace :: "string \<Rightarrow> string \<Rightarrow> string \<Rightarrow> string" where
  "str_replace search repl [] = (if search = [] then repl else [])"
| "str_replace search repl (c # cs) =
     (if search = [] then repl @ c # str_replace search repl cs
      else if prefix search (c # cs)
           then repl @ str_replace search repl (drop (length search) (c # cs))
      else c # str_replace search repl cs)"
  by pat_completeness auto
termination
  by (relation "measure (\<lambda>(search, repl, s). length s)") auto

text \<open>\<^verbatim>\<open>sep.join(items)\<close>.\<close>

fun join :: "string \<Rightarrow> string list \<Rightarrow> string" where
  "join sep [] = []"
| "join sep [x] = x"
| "join sep (x # y # ys) = x @ sep @ join sep (y # ys)"

text \<open>
  \<^verbatim>\<open>re.escape(s)\<close> (Python 3.7 and later): a backslash is put before each of
  \<^verbatim>\<open>()[]{}?*+-|^$\.&~#\<close> and before space, tab, newline, carriage return,
  vertical tab and form feed; every other character stays.
\<close>

definition re_special :: "char \<Rightarrow> bool" where
  "re_special c \<longleftrightarrow>
     (of_char c :: nat) \<in> set [40, 41, 91, 93, 123, 125, 63, 42, 43, 45, 124, 94, 36,
                                92, 46, 38, 126, 35, 32, 9, 10, 13, 11, 12]"

definition backslash :: char where
  "backslash = CHR 0x5C"

fun re_escape :: "string \<Rightarrow> string" where
  "re_escape [] = []"
| "re_escape (c # cs) =
     (if re_special c then backslash # c # re_escape cs else c # re_escape cs)"

text \<open>\<^verbatim>\<open>str(n)\<close> for a natural number, and \<^verbatim>\<open>s.isdigit()\<close>.\<close>

fun py_str :: "nat \<Rightarrow> string" where
  "py_str n =
     (if n < 10 then [char_of (48 + n)]
      else py_str (n div 10) @ [char_of (48 + n mod 10)])"

declare py_str.simps [simp del]

definition isdigit :: "string \<Rightarrow> bool" where
  "isdigit s \<longleftrightarrow> s \<noteq> [] \<and> list_all is_digit s"

text \<open>\<^verbatim>\<open>a < b\<close> on two strings compares code points the way lists compare.\<close>

definition str_lt :: "string \<Rightarrow> string \<Rightarrow> bool" where
  "str_lt a b = list_lt (map (\<lambda>c. int (of_char c)) a) (map (\<lambda>c. int (of_char c)) b)"

text \<open>\<^verbatim>\<open>os.path.join(a, b)\<close> for a relative \<open>b\<close>, with the POSIX separator.\<close>

definition path_join :: "string \<Rightarrow> string \<Rightarrow> string" where
  "path_join a b = (if a = [] \<or> last a = CHR ''/'' then a @ b else a @ ''/'' @ b)"

subsection \<open>Options and settings\<close>

text \<open>
  The option set of the recipe. \<open>font_interface\<close> is \<open>Some ''freetype''\<close> or
  \<open>None\<close>; \<open>fPIC\<close> is \<open>None\<close> once the option has been removed.
\<close>

record options =
  enable_rtti_and_exceptions :: bool
  font_interface :: "string option"
  fPIC :: "bool option"
  matrix_mode :: string
  shared :: bool
  with_lua_bindings :: bool
  with_thirdparty_containers :: bool

definition default_options :: options where
  "default_options =
     \<lparr> enable_rtti_and_exceptions = True,
       font_interface = Some ''freetype'',
       fPIC = Some True,
       matrix_mode = ''column_major'',
       shared = False,
       with_lua_bindings = False,
       with_thirdparty_containers = True \<rparr>"

text \<open>
  Reading \<^verbatim>\<open>self.options.name\<close> does not give the bare value:
  \<^verbatim>\<open>Options.__getattr__\<close> of Conan returns the option object kept under the
  name (class \<^verbatim>\<open>_PackageOption\<close>, in Conan 1 \<^verbatim>\<open>PackageOption\<close>), which holds
  the value and overloads \<^verbatim>\<open>__bool__\<close>, \<^verbatim>\<open>__eq__\<close> and \<^verbatim>\<open>__str__\<close>; that
  is what lets \<^verbatim>\<open>if self.options.shared\<close> work on a value Conan keeps as
  text. The Python values the recipe handles are therefore \<^verbatim>\<open>None\<close>, booleans,
  strings and option objects.
\<close>

datatype option_value = ONone | OBool bool | OStr string

datatype py_value = PyNone | PyBool bool | PyStr string | PackageOption option_value

definition opt_bool :: "bool \<Rightarrow> py_value" where
  "opt_bool b = PackageOption (OBool b)"

definition opt_str :: "string \<Rightarrow> py_value" where
  "opt_str s = PackageOption (OStr s)"

definition opt_str_or_none :: "string option \<Rightarrow> py_value" where
  "opt_str_or_none v =
     (case v of None \<Rightarrow> PackageOption ONone | Some s \<Rightarrow> PackageOption (OStr s))"

fun option_str :: "option_value \<Rightarrow> string" where
  "option_str ONone = ''None''"
| "option_str (OBool b) = (if b then ''True'' else ''False'')"
| "option_str (OStr s) = s"

definition to_lower :: "char \<Rightarrow> char" where
  "to_lower c =
     (let n = (of_char c :: nat) in if 65 \<le> n \<and> n \<le> 90 then char_of (n + 32) else c)"

definition falsey_options :: "string list" where
  "falsey_options = [''false'', ''none'', ''0'', ''off'', []]"

text \<open>
  Truth of a value (\<^verbatim>\<open>if x\<close>, \<^verbatim>\<open>not x\<close>); for an option object this is
  Conan's \<^verbatim>\<open>__bool__\<close>.
\<close>

fun truth :: "py_value \<Rightarrow> bool" where
  "truth PyNone = False"
| "truth (PyBool b) = b"
| "truth (PyStr s) = (s \<noteq> [])"
| "truth (PackageOption ONone) = False"
| "truth (PackageOption (OBool b)) = b"
| "truth (PackageOption (OStr s)) = (map to_lower s \<notin> set falsey_options)"

text \<open>
  \<^verbatim>\<open>x == "text"\<close>: an option object compares its value, as text, with the
  other side. (It raises when the other side is no value of the option; the recipe
  compares with \<^verbatim>\<open>"freetype"\<close> and \<^verbatim>\<open>"row_major"\<close>, which are.)
\<close>

fun eq_str :: "py_value \<Rightarrow> string \<Rightarrow> bool" where
  "eq_str PyNone s = False"
| "eq_str (PyBool b) s = False"
| "eq_str (PyStr t) s = (t = s)"
| "eq_str (PackageOption v) s = (s = option_str v)"

text \<open>
  \<^verbatim>\<open>x is None\<close> is identity: only \<^verbatim>\<open>None\<close> itself is \<^verbatim>\<open>None\<close>, an
  option object never is, whatever it holds.
\<close>

fun is_None :: "py_value \<Rightarrow> bool" where
  "is_None PyNone = True"
| "is_None (PyBool b) = False"
| "is_None (PyStr s) = False"
| "is_None (PackageOption v) = False"

record settings =
  os :: string
  compiler :: string
  compiler_version :: string
  compiler_cppstd :: "string option"

subsection \<open>config_options and configure\<close>

text \<open>
  \<^verbatim>\<open>del self.options.fPIC\<close> raises when the option is not there;
  \<^verbatim>\<open>rm_safe\<close> does not.
\<close>

definition config_options :: "settings \<Rightarrow> options \<Rightarrow> error + options" where
  "config_options s opts =
     (if os s = ''Windows''
      then (case fPIC opts of
              None \<Rightarrow> Inl ConanException
            | Some b \<Rightarrow> Inr (opts\<lparr>fPIC := None\<rparr>))
      else Inr opts)"

definition configure :: "options \<Rightarrow> options" where
  "configure opts =
     (if truth (opt_bool (shared opts)) then opts\<lparr>fPIC := None\<rparr> else opts)"

text \<open>Conan calls \<open>config_options\<close> first and \<open>configure\<close> after it.\<close>

definition resolved_options :: "settings \<Rightarrow> options \<Rightarrow> error + options" where
  "resolved_options s opts =
     (case config_options s opts of
        Inl e \<Rightarrow> Inl e
      | Inr opts' \<Rightarrow> Inr (configure opts'))"

subsection \<open>validate\<close>

definition minimum_compilers_version :: "(string \<times> string) list" where
  "minimum_compilers_version =
     [(''apple-clang'', ''5.1''),
      (''clang'', ''3.4''),
      (''gcc'', ''5''),
      (''intel'', ''17''),
      (''sun-cc'', ''5.15''),
      (''Visual Studio'', ''15'')]"

definition minimum_cpp_standard :: nat where
  "minimum_cpp_standard = 14"

text \<open>
  \<^verbatim>\<open>check_min_cppstd\<close> of \<^verbatim>\<open>conan.tools.build\<close>: both standards lose a
  \<^verbatim>\<open>gnu\<close> prefix, get their century (\<^verbatim>\<open>98\<close> is 1998, the others 20xx) and
  are compared as text.
\<close>

definition extract_cpp_version :: "string \<Rightarrow> string" where
  "extract_cpp_version cppstd = str_replace ''gnu'' [] cppstd"

definition add_millennium :: "string \<Rightarrow> string" where
  "add_millennium cppstd = (if cppstd = ''98'' then ''19'' @ cppstd else ''20'' @ cppstd)"

definition less_than :: "string \<Rightarrow> string \<Rightarrow> bool" where
  "less_than lhs rhs =
     str_lt (add_millennium (extract_cpp_version lhs)) (add_millennium (extract_cpp_version rhs))"

definition check_min_cppstd :: "settings \<Rightarrow> nat \<Rightarrow> error + unit" where
  "check_min_cppstd s cppstd =
     (if \<not> isdigit (py_str cppstd) then Inl ConanException
      else (case compiler_cppstd s of
              None \<Rightarrow> Inl ConanInvalidConfiguration
            | Some current_cppstd \<Rightarrow>
                if less_than current_cppstd (py_str cppstd) then Inl ConanInvalidConfiguration
                else Inr ()))"

definition lacks_information :: string where
  "lacks_information =
     ''{self.name} recipe lacks information about the {self.settings.compiler} compiler support.''"

text \<open>
  \<open>validate\<close> returns the warnings it has written to the output, or the error it
  raises.
\<close>

definition validate :: "settings \<Rightarrow> error + string list" where
  "validate s =
     (case (if truth (case compiler_cppstd s of None \<Rightarrow> PyNone | Some c \<Rightarrow> PyStr c)
            then check_min_cppstd s minimum_cpp_standard else Inr ()) of
        Inl e \<Rightarrow> Inl e
      | Inr u \<Rightarrow>
          (let min_version = map_of minimum_compilers_version (compiler s)
           in if \<not> truth (case min_version of None \<Rightarrow> PyNone | Some m \<Rightarrow> PyStr m)
              then Inr [lacks_information]
              else (case lazy_lt_semver (compiler_version s) (the min_version) of
                      Inl e \<Rightarrow> Inl e
                    | Inr lt \<Rightarrow> if lt then Inl ConanInvalidConfiguration else Inr [])))"

subsection \<open>requirements and generate\<close>

definition requirements :: "options \<Rightarrow> string list" where
  "requirements opts =
     (if eq_str (opt_str_or_none (font_interface opts)) ''freetype''
      then [''freetype/2.13.0''] else []) @
     (if truth (opt_bool (with_lua_bindings opts)) then [''lua/5.4.4''] else []) @
     (if truth (opt_bool (with_thirdparty_containers opts))
      then [''robin-hood-hashing/3.11.5''] else [])"

text \<open>
  \<^verbatim>\<open>self.dependencies\<close> maps the name of each dependency to its
  \<^verbatim>\<open>cpp_info.includedirs\<close>; indexing it with a name that is not there raises
  \<^verbatim>\<open>KeyError\<close>. The dependencies of a build are the packages named by
  \<open>requirements\<close>, looked up in what the package index holds; what those
  packages require in turn is left out.
\<close>

type_synonym dependencies = "string \<rightharpoonup> string list"

definition ref_name :: "string \<Rightarrow> string" where
  "ref_name r = takeWhile (\<lambda>c. c \<noteq> CHR ''/'') r"

definition dependencies_of :: "dependencies \<Rightarrow> options \<Rightarrow> dependencies" where
  "dependencies_of index opts =
     (\<lambda>name. if name \<in> set (map ref_name (requirements opts)) then index name else None)"

text \<open>
  \<open>generate\<close> returns the table \<^verbatim>\<open>tc.variables\<close>, in the order the keys were
  set.
\<close>

definition generate :: "options \<Rightarrow> dependencies \<Rightarrow> error + (string \<times> py_value) list" where
  "generate opts deps =
     (let tc = [];
          tc = AList.update ''BUILD_LUA_BINDINGS'' (opt_bool (with_lua_bindings opts)) tc;
          tc = AList.update ''BUILD_SAMPLES'' (PyBool False) tc;
          tc = AList.update ''CUSTOM_CONFIGURATION'' (PyBool True) tc
      in case deps ''robin-hood-hashing'' of
           None \<Rightarrow> Inl KeyError
         | Some includedirs \<Rightarrow>
             (let tc = AList.update ''CUSTOM_INCLUDE_DIRS''
                         (PyStr (join '';'' (map re_escape includedirs))) tc;
                  tc = AList.update ''DISABLE_RTTI_AND_EXCEPTIONS''
                         (PyBool (\<not> truth (opt_bool (enable_rtti_and_exceptions opts)))) tc;
                  tc = AList.update ''ENABLE_PRECOMPILED_HEADERS'' (PyBool True) tc;
                  tc = AList.update ''ENABLE_TRACY_PROFILING'' (PyBool False) tc;
                  tc = AList.update ''MATRIX_ROW_MAJOR''
                         (PyBool (eq_str (opt_str (matrix_mode opts)) ''row_major'')) tc;
                  tc = AList.update ''NO_FONT_INTERFACE_DEFAULT''
                         (PyBool (is_None (opt_str_or_none (font_interface opts)))) tc;
                  tc = AList.update ''NO_THIRDPARTY_CONTAINERS''
                         (PyBool (\<not> truth (opt_bool (with_thirdparty_containers opts)))) tc
              in Inr tc))"

subsection \<open>Patching the sources\<close>

text \<open>
  The files on disk: a path has a content, the text of the file, or is not there.
  \<^verbatim>\<open>replace_in_file\<close>
  of \<^verbatim>\<open>conan.tools.files\<close> loads the file, looks for the search text and, when
  it is there, saves the content with every occurrence replaced. When the text is
  not there it raises if \<open>strict\<close> is set (the default) and otherwise warns and
  leaves the file alone.
\<close>

type_synonym files = "string \<rightharpoonup> string"

definition replace_in_file ::
  "files \<Rightarrow> string \<Rightarrow> string \<Rightarrow> string \<Rightarrow> bool \<Rightarrow> error + files" where
  "replace_in_file fs file_path search repl strict =
     (case fs file_path of
        None \<Rightarrow> Inl FileNotFoundError
      | Some content \<Rightarrow>
          if - 1 = str_find content search
          then (if strict then Inl ConanException else Inr fs)
          else Inr (fs(file_path \<mapsto> str_replace search repl content)))"

definition replace_mapping :: "(string \<times> string) list" where
  "replace_mapping =
     [(''FREETYPE_FOUND'', ''Freetype_FOUND''),
      (''FREETYPE_INCLUDE_DIRS'', ''Freetype_INCLUDE_DIRS''),
      (''FREETYPE_LINK_DIRS'', ''Freetype_LINK_DIRS''),
      (''FREETYPE_LIBRARY'', ''Freetype_LIBRARIES''),
      (''FREETYPE_LIBRARIES'', ''Freetype_LIBRARIES''),
      (''LUA_FOUND'', ''lua_FOUND''),
      (''LUA_INCLUDE_DIR'', ''lua_INCLUDE_DIR''),
      (''LUA_LIBRARIES'', ''lua_LIBRARIES''),
      (''if(PkgHelpers_AVAILABLE)'', ''if(FALSE)'')]"

definition robin_hood_search :: string where
  "robin_hood_search = CHR 0x22 # ''../Core/Containers/robin_hood.h'' @ [CHR 0x22]"

definition robin_hood_replace :: string where
  "robin_hood_replace = ''<robin_hood.h>''"

text \<open>
  The loop over the mapping, in the order of the dictionary. A run gives the files
  as it leaves them and the error it raised, if any: what was saved before an error
  stays saved.
\<close>

fun replace_items :: "string \<Rightarrow> (string \<times> string) list \<Rightarrow> files \<Rightarrow> files \<times> error option" where
  "replace_items path [] fs = (fs, None)"
| "replace_items path ((key, val) # items) fs =
     (case replace_in_file fs path key val False of
        Inl e \<Rightarrow> (fs, Some e)
      | Inr fs' \<Rightarrow> replace_items path items fs')"

definition patch_sources :: "string \<Rightarrow> options \<Rightarrow> files \<Rightarrow> files \<times> error option" where
  "patch_sources source_folder opts fs =
     (let cmakelists_path = path_join source_folder ''CMakeLists.txt''
      in case replace_items cmakelists_path replace_mapping fs of
           (fs', Some e) \<Rightarrow> (fs', Some e)
         | (fs', None) \<Rightarrow>
             if truth (opt_bool (with_thirdparty_containers opts))
             then (let config_path =
                         path_join (path_join (path_join (path_join source_folder ''Include'')
                           ''RmlUi'') ''Config'') ''Config.h''
                   in case replace_in_file fs' config_path robin_hood_search robin_hood_replace True of
                        Inl e \<Rightarrow> (fs', Some e)
                      | Inr fs'' \<Rightarrow> (fs'', None))
             else (fs', None))"

subsection \<open>package_info\<close>

text \<open>
  The two lists of \<^verbatim>\<open>self.cpp_info\<close> the recipe appends to; \<open>cpp_defines\<close> is
  \<^verbatim>\<open>cpp_info.defines\<close>.
\<close>

record cpp_info =
  cpp_defines :: "string list"
  libs :: "string list"

definition package_info :: "options \<Rightarrow> cpp_info \<Rightarrow> cpp_info" where
  "package_info opts ci =
     (let ci = (if eq_str (opt_str (matrix_mode opts)) ''row_major''
                then ci\<lparr>cpp_defines := cpp_defines ci @ [''RMLUI_MATRIX_ROW_MAJOR'']\<rparr> else ci);
          ci = (if \<not> truth (opt_bool (enable_rtti_and_exceptions opts))
                then ci\<lparr>cpp_defines := cpp_defines ci @ [''RMLUI_USE_CUSTOM_RTTI'']\<rparr> else ci);
          ci = (if \<not> truth (opt_bool (shared opts))
                then ci\<lparr>cpp_defines := cpp_defines ci @ [''RMLUI_STATIC_LIB'']\<rparr> else ci);
          ci = (if \<not> truth (opt_bool (with_thirdparty_containers opts))
                then ci\<lparr>cpp_defines := cpp_defines ci @ [''RMLUI_NO_THIRDPARTY_CONTAINERS'']\<rparr> else ci);
          ci = (if truth (opt_bool (with_lua_bindings opts))
                then ci\<lparr>libs := libs ci @ [''RmlLua'']\<rparr> else ci);
          ci = ci\<lparr>libs := libs ci @ [''RmlDebugger'']\<rparr>;
          ci = ci\<lparr>libs := libs ci @ [''RmlCore'']\<rparr>
      in ci)"

text \<open>The \<^verbatim>\<open>cpp_info\<close> Conan hands to \<open>package_info\<close> has empty lists.\<close>

definition empty_cpp_info :: cpp_info where
  "empty_cpp_info = \<lparr> cpp_defines = [], libs = [] \<rparr>"

subsection \<open>Notions used in the statements\<close>

text \<open>
  The decimal digits and the white space of ASCII, written out, and the value of a
  text of digits in positional notation.
\<close>

definition decimal_digit :: "char \<Rightarrow> bool" where
  "decimal_digit c \<longleftrightarrow> c \<in> set ''0123456789''"


definition digit_of :: "char \<Rightarrow> int" where
  "digit_of c = int (length (takeWhile (\<lambda>d. d \<noteq> c) ''0123456789''))"

definition decimal_value :: "string \<Rightarrow> int" where
  "decimal_value ds = horner_sum digit_of 10 (rev ds)"

text \<open>
  A dotted-numeric version is made of pieces that are \<open>numeric\<close>: non-empty, all
  digits, and no longer than any interpreter converts. \<open>decimal_numeral\<close> is the
  same without the bound.
\<close>

definition numeric :: "string \<Rightarrow> bool" where
  "numeric c \<longleftrightarrow> c \<noteq> [] \<and> list_all decimal_digit c \<and> length c \<le> 4300"




text \<open>Splitting at any one character, to read a joined list back.\<close>

fun split_at :: "char \<Rightarrow> string \<Rightarrow> string list" where
  "split_at sep [] = [[]]"
| "split_at sep (c # cs) =
     (if c = sep then [] # split_at sep cs
      else (case split_at sep cs of
              [] \<Rightarrow> [[c]]
            | w # ws \<Rightarrow> (c # w) # ws))"

text \<open>
  The characters \<^verbatim>\<open>re.escape\<close> puts a backslash before, written out, and what
  it does to one character.
\<close>

definition escaped_chars :: string where
  "escaped_chars =
     ''()[]{}?*+-|^$.&~# '' @ [CHR 0x5C, CHR 0x09, CHR 0x0A, CHR 0x0D, CHR 0x0B, CHR 0x0C]"

definition escape_char :: "char \<Rightarrow> string" where
  "escape_char c = (if c \<in> set escaped_chars then [CHR 0x5C, c] else [c])"

text \<open>
  The value of one variable of the table \<open>generate\<close> returns, and a set of
  dependencies that holds the container package alone.
\<close>

definition variable :: "string \<Rightarrow> error + (string \<times> py_value) list \<Rightarrow> py_value option" where
  "variable name r = (case r of Inl e \<Rightarrow> None | Inr tc \<Rightarrow> map_of tc name)"

definition sample_dependencies :: "string list \<Rightarrow> dependencies" where
  "sample_dependencies dirs = [''robin-hood-hashing'' \<mapsto> dirs]"

text \<open>The first statement of \<open>validate\<close>: the check of the language standard.\<close>

definition cppstd_check :: "settings \<Rightarrow> error + unit" where
  "cppstd_check s =
     (if truth (case compiler_cppstd s of None \<Rightarrow> PyNone | Some c \<Rightarrow> PyStr c)
      then check_min_cppstd s minimum_cpp_standard else Inr ())"

text \<open>
  Reading escaped text back: a backslash stands for the character after it.
\<close>

fun unescape :: "string \<Rightarrow> string" where
  "unescape [] = []"
| "unescape [c] = [c]"
| "unescape (c # d # cs) = (if c = backslash then d # unescape cs else c # unescape (d # cs))"

text \<open>
  Two texts overlap when a non-empty end of the first is a beginning of the second.
  A search text is clean for a replacement when neither occurs in the other and
  they do not overlap in either direction; then replacing cannot put a new
  occurrence of the search text together.
\<close>

fun overlap :: "'a list \<Rightarrow> 'a list \<Rightarrow> bool" where
  "overlap [] ys = False"
| "overlap (x # xs) ys = (prefix (x # xs) ys \<or> overlap xs ys)"

definition clean :: "string \<Rightarrow> string \<Rightarrow> bool" where
  "clean K val \<longleftrightarrow> \<not> sublist K val \<and> \<not> sublist val K \<and> \<not> overlap val K \<and> \<not> overlap K val"

text \<open>The content of a file after the loop over the mapping.\<close>

definition apply_items :: "(string \<times> string) list \<Rightarrow> string \<Rightarrow> string" where
  "apply_items items content = foldl (\<lambda>c (key, val). str_replace key val c) content items"

text \<open>The two paths \<open>patch_sources\<close> builds.\<close>

definition cmakelists_path :: "string \<Rightarrow> string" where
  "cmakelists_path source_folder = path_join source_folder ''CMakeLists.txt''"

definition config_path :: "string \<Rightarrow> string" where
  "config_path source_folder =
     path_join (path_join (path_join (path_join source_folder ''Include'') ''RmlUi'') ''Config'')
       ''Config.h''"

text \<open>A source tree to run the patches on.\<close>

definition sample_config_h :: string where
  "sample_config_h = ''#include '' @ robin_hood_search"

definition sample_files :: files where
  "sample_files =
     [''src/CMakeLists.txt'' \<mapsto> ''if(FREETYPE_FOUND)'',
      ''src/Include/RmlUi/Config/Config.h'' \<mapsto> sample_config_h]"

section \<open>Properties\<close>

text \<open>
  C7. For every option set, the published libraries are the Lua bindings library,
  present exactly when \<open>with_lua_bindings\<close> is set, then the debugger library, then
  the core library, in this order.
\<close>

theorem package_info_libs:
  "libs (package_info opts empty_cpp_info) =
     (if with_lua_bindings opts then [''RmlLua''] else []) @ [''RmlDebugger'', ''RmlCore'']"
  by (simp add: package_info_def empty_cpp_info_def opt_bool_def Let_def)

text \<open>
  C8. The published defines hold the row-major define exactly when
  \<open>matrix_mode\<close> is \<open>row_major\<close>, the custom-RTTI define exactly when
  \<open>enable_rtti_and_exceptions\<close> is false, the static-linkage define exactly when
  \<open>shared\<close> is false and the no-thirdparty-containers define exactly when
  \<open>with_thirdparty_containers\<close> is false; for the default options they are the
  static-linkage define alone.
\<close>

theorem package_info_defines:
  "(''RMLUI_MATRIX_ROW_MAJOR'' \<in> set (cpp_defines (package_info opts empty_cpp_info))
      \<longleftrightarrow> matrix_mode opts = ''row_major'') \<and>
   (''RMLUI_USE_CUSTOM_RTTI'' \<in> set (cpp_defines (package_info opts empty_cpp_info))
      \<longleftrightarrow> enable_rtti_and_exceptions opts = False) \<and>
   (''RMLUI_STATIC_LIB'' \<in> set (cpp_defines (package_info opts empty_cpp_info))
      \<longleftrightarrow> shared opts = False) \<and>
   (''RMLUI_NO_THIRDPARTY_CONTAINERS'' \<in> set (cpp_defines (package_info opts empty_cpp_info))
      \<longleftrightarrow> with_thirdparty_containers opts = False) \<and>
   cpp_defines (package_info default_options empty_cpp_info) = [''RMLUI_STATIC_LIB'']"
  by (auto simp add: package_info_def empty_cpp_info_def opt_bool_def opt_str_def Let_def
        default_options_def)

subsection \<open>The resolved option set\<close>

lemma resolved_options_eq:
  "resolved_options s opts =
     (if os s = ''Windows'' \<and> fPIC opts = None then Inl ConanException
      else Inr (opts\<lparr>fPIC := (if os s = ''Windows'' \<or> shared opts then None else fPIC opts)\<rparr>))"
  by (simp add: resolved_options_def config_options_def configure_def opt_bool_def
        split: option.splits)

text \<open>
  C4. Whatever the input options and the platform, the resolved option set has no
  \<open>fPIC\<close> on Windows and none when \<open>shared\<close> is true; where \<open>fPIC\<close> is
  present, the platform is not Windows and \<open>shared\<close> is false. Resolution succeeds
  on every input that declares \<open>fPIC\<close>, as the recipe's option table does.
\<close>

theorem resolved_options_fPIC:
  "(fPIC opts \<noteq> None \<longrightarrow> (\<exists>r. resolved_options s opts = Inr r)) \<and>
   (\<forall>r. resolved_options s opts = Inr r \<longrightarrow>
      (os s = ''Windows'' \<longrightarrow> fPIC r = None) \<and>
      (shared r \<longrightarrow> fPIC r = None) \<and>
      (fPIC r \<noteq> None \<longrightarrow> os s \<noteq> ''Windows'' \<and> \<not> shared r \<and> fPIC r = fPIC opts))"
  by (auto simp add: resolved_options_eq split: if_splits)

theorem resolved_options_fPIC_witness:
  "(\<exists>r. resolved_options
          \<lparr>os = ''Windows'', compiler = ''gcc'', compiler_version = ''9'', compiler_cppstd = None\<rparr>
          default_options = Inr r \<and> fPIC r = None) \<and>
   (\<exists>r. resolved_options
          \<lparr>os = ''Linux'', compiler = ''gcc'', compiler_version = ''9'', compiler_cppstd = None\<rparr>
          (default_options\<lparr>shared := True\<rparr>) = Inr r \<and> shared r \<and> fPIC r = None) \<and>
   (\<exists>r. resolved_options
          \<lparr>os = ''Linux'', compiler = ''gcc'', compiler_version = ''9'', compiler_cppstd = None\<rparr>
          default_options = Inr r \<and> fPIC r = Some True)"
  using
    resolved_options_fPIC [of default_options
      "\<lparr>os = ''Windows'', compiler = ''gcc'', compiler_version = ''9'', compiler_cppstd = None\<rparr>"]
    resolved_options_fPIC [of "default_options\<lparr>shared := True\<rparr>"
      "\<lparr>os = ''Linux'', compiler = ''gcc'', compiler_version = ''9'', compiler_cppstd = None\<rparr>"]
    resolved_options_fPIC [of default_options
      "\<lparr>os = ''Linux'', compiler = ''gcc'', compiler_version = ''9'', compiler_cppstd = None\<rparr>"]
  by (simp add: default_options_def resolved_options_def config_options_def configure_def
        opt_bool_def)

subsection \<open>The variable table\<close>

lemma generate_table:
  "deps ''robin-hood-hashing'' = Some dirs \<Longrightarrow>
   generate opts deps = Inr
     [(''BUILD_LUA_BINDINGS'', opt_bool (with_lua_bindings opts)),
      (''BUILD_SAMPLES'', PyBool False),
      (''CUSTOM_CONFIGURATION'', PyBool True),
      (''CUSTOM_INCLUDE_DIRS'', PyStr (join '';'' (map re_escape dirs))),
      (''DISABLE_RTTI_AND_EXCEPTIONS'', PyBool (\<not> enable_rtti_and_exceptions opts)),
      (''ENABLE_PRECOMPILED_HEADERS'', PyBool True),
      (''ENABLE_TRACY_PROFILING'', PyBool False),
      (''MATRIX_ROW_MAJOR'', PyBool (matrix_mode opts = ''row_major'')),
      (''NO_FONT_INTERFACE_DEFAULT'', PyBool False),
      (''NO_THIRDPARTY_CONTAINERS'', PyBool (\<not> with_thirdparty_containers opts))]"
  by (auto simp add: generate_def Let_def opt_bool_def opt_str_def opt_str_or_none_def
        split: option.splits)

lemma generate_KeyError:
  "deps ''robin-hood-hashing'' = None \<Longrightarrow> generate opts deps = Inl KeyError"
  by (simp add: generate_def)

lemma dependencies_of_robin:
  "dependencies_of index opts ''robin-hood-hashing'' =
     (if with_thirdparty_containers opts then index ''robin-hood-hashing'' else None)"
  by (auto simp add: dependencies_of_def requirements_def ref_name_def opt_bool_def
        opt_str_or_none_def split: option.splits)

text \<open>
  C3. The claim: \<open>NO_FONT_INTERFACE_DEFAULT\<close> is true exactly when
  \<open>font_interface\<close> holds the none value. The recipe tests the option object with
  \<^verbatim>\<open>is None\<close>, so the variable is false also for the option set whose
  \<open>font_interface\<close> is none.
\<close>

theorem generate_font_interface_none:
  "font_interface (default_options\<lparr>font_interface := None\<rparr>) = None \<and>
   (\<exists>tc. generate (default_options\<lparr>font_interface := None\<rparr>)
            (dependencies_of (\<lambda>name. Some [''include''])
               (default_options\<lparr>font_interface := None\<rparr>)) = Inr tc \<and>
         map_of tc ''NO_FONT_INTERFACE_DEFAULT'' = Some (PyBool False))"
proof -
  have "dependencies_of (\<lambda>name. Some [''include''])
          (default_options\<lparr>font_interface := None\<rparr>) ''robin-hood-hashing'' = Some [''include'']"
    by (simp add: dependencies_of_robin default_options_def)
  then have "\<exists>tc. generate (default_options\<lparr>font_interface := None\<rparr>)
            (dependencies_of (\<lambda>name. Some [''include''])
               (default_options\<lparr>font_interface := None\<rparr>)) = Inr tc \<and>
         map_of tc ''NO_FONT_INTERFACE_DEFAULT'' = Some (PyBool False)"
    by (simp add: generate_table)
  then show ?thesis
    by simp
qed

text \<open>
  C9. The claim: for every option set the table holds \<open>BUILD_LUA_BINDINGS\<close>,
  \<open>DISABLE_RTTI_AND_EXCEPTIONS\<close>, \<open>MATRIX_ROW_MAJOR\<close>, \<open>NO_THIRDPARTY_CONTAINERS\<close>
  and the four fixed values. With \<open>with_thirdparty_containers\<close> false the recipe
  does not require the container package, the lookup in \<open>generate\<close> raises, and
  no table is produced.
\<close>

theorem generate_without_containers:
  "generate (default_options\<lparr>with_thirdparty_containers := False\<rparr>)
     (dependencies_of index (default_options\<lparr>with_thirdparty_containers := False\<rparr>))
   = Inl KeyError"
  by (simp add: generate_KeyError dependencies_of_robin)

subsection \<open>The version comparison\<close>

lemma list_lt_lexord: "list_lt xs ys \<longleftrightarrow> (xs, ys) \<in> lexord {(a, b). a < b}"
  by (induction xs ys rule: list_lt.induct) auto

lemma int_list_those:
  "int_list vs = (case those (map py_int vs) of None \<Rightarrow> Inl ValueError | Some ns \<Rightarrow> Inr ns)"
  by (induction vs) (auto split: option.splits sum.splits)

lemma digit_not_space: "is_digit c \<Longrightarrow> \<not> py_isspace c"
  by (auto simp add: is_digit_def py_isspace_def Let_def)

lemma digit_not_sign: "is_digit c \<Longrightarrow> c \<noteq> CHR ''+'' \<and> c \<noteq> CHR ''-''"
  by (auto simp add: is_digit_def)

lemma dropWhile_hd: "xs \<noteq> [] \<Longrightarrow> \<not> P (hd xs) \<Longrightarrow> dropWhile P xs = xs"
  by (cases xs) auto

lemma strip_digits:
  assumes "list_all is_digit s"
  shows "strip s = s"
proof (cases "s = []")
  case True
  then show ?thesis by (simp add: strip_def)
next
  case False
  with assms have "is_digit (hd s)" "is_digit (last s)"
    by (auto simp add: list_all_iff)
  then have "\<not> py_isspace (hd s)" "\<not> py_isspace (hd (rev s))"
    using False by (auto simp add: digit_not_space hd_rev)
  with False show ?thesis
    by (simp add: strip_def dropWhile_hd)
qed

lemma int_list_error:
  "int_list vs = Inl e \<longleftrightarrow> e = ValueError \<and> list_ex (\<lambda>c. py_int c = None) vs"
  by (induction vs) (auto split: option.splits sum.splits)

lemma int_list_Inr:
  "int_list vs = Inr ns \<Longrightarrow> \<not> list_ex (\<lambda>c. py_int c = None) vs"
  by (induction vs arbitrary: ns) (auto split: option.splits sum.splits)

lemma lazy_lt_semver_error:
  "lazy_lt_semver v1 v2 = Inl e \<longleftrightarrow>
     e = ValueError \<and> list_ex (\<lambda>c. py_int c = None) (split_dot v1 @ split_dot v2)"
  by (auto simp add: lazy_lt_semver_def int_list_error Let_def dest: int_list_Inr
        split: sum.splits)

lemma is_digit_decimal: "is_digit c \<longleftrightarrow> decimal_digit c"
proof
  assume "is_digit c"
  then have "(48::nat) \<le> of_char c" "(of_char c :: nat) \<le> 57"
    by (simp_all add: is_digit_def Let_def)
  then have "(of_char c :: nat) = 48 \<or> (of_char c :: nat) = 49 \<or> (of_char c :: nat) = 50 \<or>
    (of_char c :: nat) = 51 \<or> (of_char c :: nat) = 52 \<or> (of_char c :: nat) = 53 \<or>
    (of_char c :: nat) = 54 \<or> (of_char c :: nat) = 55 \<or> (of_char c :: nat) = 56 \<or>
    (of_char c :: nat) = 57"
    by arith
  then have "(of_char c :: nat) = of_char CHR ''0'' \<or> (of_char c :: nat) = of_char CHR ''1'' \<or>
    (of_char c :: nat) = of_char CHR ''2'' \<or> (of_char c :: nat) = of_char CHR ''3'' \<or>
    (of_char c :: nat) = of_char CHR ''4'' \<or> (of_char c :: nat) = of_char CHR ''5'' \<or>
    (of_char c :: nat) = of_char CHR ''6'' \<or> (of_char c :: nat) = of_char CHR ''7'' \<or>
    (of_char c :: nat) = of_char CHR ''8'' \<or> (of_char c :: nat) = of_char CHR ''9''"
    by simp
  then show "decimal_digit c"
    unfolding of_char_eq_iff by (simp add: decimal_digit_def)
next
  assume "decimal_digit c"
  then show "is_digit c"
    by (auto simp add: decimal_digit_def is_digit_def)
qed


lemma digit_of_value_all: "list_all (\<lambda>c. digit_of c = digit_value c) ''0123456789''"
  by code_simp

lemma digit_of_value: "decimal_digit c \<Longrightarrow> digit_of c = digit_value c"
  using digit_of_value_all unfolding decimal_digit_def list_all_iff by blast

lemma re_special_escaped_all: "list_all re_special escaped_chars"
  by code_simp

lemma re_special_escaped: "re_special c \<longleftrightarrow> c \<in> set escaped_chars"
proof
  assume "re_special c"
  then have "(of_char c :: nat) \<in> set (map of_char escaped_chars)"
    by (simp add: re_special_def escaped_chars_def) blast
  moreover have "inj (of_char :: char \<Rightarrow> nat)"
    by (simp add: inj_on_def)
  ultimately show "c \<in> set escaped_chars"
    by (simp add: inj_image_mem_iff)
next
  assume "c \<in> set escaped_chars"
  with re_special_escaped_all show "re_special c"
    unfolding list_all_iff by blast
qed

lemma split_dot_split_at: "split_dot s = split_at CHR ''.'' s"
  by (induction s) auto

lemma split_at_plain: "sep \<notin> set x \<Longrightarrow> split_at sep x = [x]"
  by (induction x) auto

lemma split_at_append:
  "sep \<notin> set x \<Longrightarrow> split_at sep (x @ sep # r) = x # split_at sep r"
  by (induction x) auto

lemma split_at_join:
  "cs \<noteq> [] \<Longrightarrow> list_all (\<lambda>c. sep \<notin> set c) cs \<Longrightarrow> split_at sep (join [sep] cs) = cs"
  by (induction "[sep]" cs rule: join.induct) (auto simp add: split_at_plain split_at_append)

lemma split_dot_join:
  "cs \<noteq> [] \<Longrightarrow> list_all (\<lambda>c. CHR ''.'' \<notin> set c) cs \<Longrightarrow> split_dot (join ''.'' cs) = cs"
  by (simp add: split_dot_split_at split_at_join)

lemma decimal_value_Cons:
  "decimal_value (c # cs) = digit_of c * 10 ^ length cs + decimal_value cs"
  by (simp add: decimal_value_def horner_sum_append)

lemma decimal_value_Nil: "decimal_value [] = 0"
  by (simp add: decimal_value_def)

lemma digits_from_value:
  "list_all is_digit ds \<Longrightarrow>
   digits_from acc False ds = Some (acc * 10 ^ length ds + decimal_value ds)"
proof (induction ds arbitrary: acc)
  case Nil
  then show ?case by (simp add: decimal_value_Nil)
next
  case (Cons c cs)
  then have "digit_of c = digit_value c"
    by (simp add: digit_of_value is_digit_decimal)
  with Cons show ?case
    by (simp add: decimal_value_Cons algebra_simps)
qed

lemma py_int_numeric:
  assumes "numeric s"
  shows "py_int s = Some (decimal_value s)"
proof -
  from assms have d: "list_all is_digit s" and ne: "s \<noteq> []" and len: "length s \<le> 4300"
    by (simp_all add: numeric_def is_digit_decimal [abs_def])
  from ne obtain c cs where s: "s = c # cs" by (cases s) auto
  with d have c: "is_digit c" "list_all is_digit cs" by auto
  have lim: "\<not> int_max_str_digits < length (filter is_digit s)"
    using length_filter_le [of is_digit s] len unfolding int_max_str_digits_def by linarith
  from c have "digit_of c = digit_value c"
    by (simp add: digit_of_value is_digit_decimal)
  with c have "digits_from (digit_value c) False cs = Some (decimal_value s)"
    by (simp add: digits_from_value s decimal_value_Cons)
  with c lim s have "unsigned_int s = Some (decimal_value s)"
    by (simp add: unsigned_int_def)
  moreover from c have "c \<noteq> CHR ''+''" "c \<noteq> CHR ''-''"
    by (auto simp add: is_digit_def)
  ultimately show ?thesis
    using strip_digits [OF d] s by (simp add: py_int_def)
qed

lemma int_list_numeric:
  "list_all numeric cs \<Longrightarrow> int_list cs = Inr (map decimal_value cs)"
  by (induction cs) (auto simp add: py_int_numeric)

lemma dot_no_digit: "\<not> decimal_digit CHR ''.''"
  by (simp add: decimal_digit_def)

lemma numeric_no_dot: "numeric c \<Longrightarrow> CHR ''.'' \<notin> set c"
  unfolding numeric_def list_all_iff using dot_no_digit by blast

lemma lazy_lt_semver_numeric:
  assumes "cs1 \<noteq> []" "cs2 \<noteq> []" "list_all numeric (cs1 @ cs2)"
  shows "lazy_lt_semver (join ''.'' cs1) (join ''.'' cs2) =
           Inr ((take (min (length cs1) (length cs2)) (map decimal_value cs1),
                 take (min (length cs1) (length cs2)) (map decimal_value cs2))
                \<in> lexord {(a, b). a < b})"
proof -
  from assms have n: "list_all numeric cs1" "list_all numeric cs2" by simp_all
  then have "list_all (\<lambda>c. CHR ''.'' \<notin> set c) cs1" "list_all (\<lambda>c. CHR ''.'' \<notin> set c) cs2"
    by (auto simp add: list_all_iff numeric_no_dot)
  with assms have "split_dot (join ''.'' cs1) = cs1" "split_dot (join ''.'' cs2) = cs2"
    by (simp_all add: split_dot_join)
  with n show ?thesis
    by (simp add: lazy_lt_semver_def int_list_numeric list_lt_lexord Let_def)
qed

lemma lazy_lt_semver_pieces:
  assumes "cs1 \<noteq> []" "cs2 \<noteq> []" "list_all (\<lambda>c. CHR ''.'' \<notin> set c) (cs1 @ cs2)"
  shows "lazy_lt_semver (join ''.'' cs1) (join ''.'' cs2) =
     (case (those (map py_int cs1), those (map py_int cs2)) of
        (Some l1, Some l2) \<Rightarrow>
          Inr ((take (min (length l1) (length l2)) l1, take (min (length l1) (length l2)) l2)
                 \<in> lexord {(a, b). a < b})
      | _ \<Rightarrow> Inl ValueError)"
proof -
  from assms have "split_dot (join ''.'' cs1) = cs1" "split_dot (join ''.'' cs2) = cs2"
    by (simp_all add: split_dot_join)
  then show ?thesis
    by (simp add: lazy_lt_semver_def int_list_those list_lt_lexord Let_def split: option.splits)
qed

lemmas version_eval =
  lazy_lt_semver_def py_int_def strip_def py_isspace_def unsigned_int_def int_max_str_digits_def
  is_digit_def digit_value_def

lemma version_samples:
  "lazy_lt_semver ''5'' ''5.15'' = Inr False"
  "lazy_lt_semver ''4.9'' ''5'' = Inr True"
  "lazy_lt_semver ''10'' ''5'' = Inr False"
  "lazy_lt_semver ''5.9'' ''5.15'' = Inr True"
  "lazy_lt_semver ''3.4.2'' ''3.4'' = Inr False"
  "lazy_lt_semver ''3.3.9'' ''3.4'' = Inr True"
  "lazy_lt_semver ''14'' ''15'' = Inr True"
  "lazy_lt_semver ''15'' ''15'' = Inr False"
  by (simp_all add: version_eval)

text \<open>
  C1. The version check splits both versions at the dots, converts every piece to
  an integer, cuts both lists to the shorter length and compares the cut lists
  lexicographically. Stated from the pieces: for versions written as pieces joined
  by dots, the result is the lexicographic comparison of the converted pieces, cut
  to the shorter length, and for dotted-numeric versions that of the decimal values
  of the pieces. So an installed \<open>5\<close> is accepted against the minimum \<open>5.15\<close>,
  and \<open>4.9\<close> is rejected against the minimum \<open>5\<close>.
\<close>

theorem lazy_lt_semver_lexicographic:
  "(cs1 \<noteq> [] \<and> cs2 \<noteq> [] \<and> list_all (\<lambda>c. CHR ''.'' \<notin> set c) (cs1 @ cs2) \<longrightarrow>
      lazy_lt_semver (join ''.'' cs1) (join ''.'' cs2) =
        (case (those (map py_int cs1), those (map py_int cs2)) of
           (Some l1, Some l2) \<Rightarrow>
             Inr ((take (min (length l1) (length l2)) l1, take (min (length l1) (length l2)) l2)
                    \<in> lexord {(a, b). a < b})
         | _ \<Rightarrow> Inl ValueError)) \<and>
   (cs1 \<noteq> [] \<and> cs2 \<noteq> [] \<and> list_all numeric (cs1 @ cs2) \<longrightarrow>
      lazy_lt_semver (join ''.'' cs1) (join ''.'' cs2) =
        Inr ((take (min (length cs1) (length cs2)) (map decimal_value cs1),
              take (min (length cs1) (length cs2)) (map decimal_value cs2))
             \<in> lexord {(a, b). a < b})) \<and>
   lazy_lt_semver ''5'' ''5.15'' = Inr False \<and>
   lazy_lt_semver ''4.9'' ''5'' = Inr True \<and>
   lazy_lt_semver ''10'' ''5'' = Inr False \<and>
   lazy_lt_semver ''5.9'' ''5.15'' = Inr True \<and>
   lazy_lt_semver ''3.4.2'' ''3.4'' = Inr False \<and>
   lazy_lt_semver ''3.3.9'' ''3.4'' = Inr True \<and>
   validate \<lparr>os = ''SunOS'', compiler = ''sun-cc'', compiler_version = ''5'', compiler_cppstd = None\<rparr>
     = Inr [] \<and>
   validate \<lparr>os = ''Linux'', compiler = ''gcc'', compiler_version = ''4.9'', compiler_cppstd = None\<rparr>
     = Inl ConanInvalidConfiguration \<and>
   validate \<lparr>os = ''Linux'', compiler = ''gcc'', compiler_version = ''10'', compiler_cppstd = None\<rparr>
     = Inr [] \<and>
   validate \<lparr>os = ''Linux'', compiler = ''clang'', compiler_version = ''3.4.2'', compiler_cppstd = None\<rparr>
     = Inr [] \<and>
   validate \<lparr>os = ''Windows'', compiler = ''Visual Studio'', compiler_version = ''14'', compiler_cppstd = None\<rparr>
     = Inl ConanInvalidConfiguration"
proof -
  have v:
    "validate \<lparr>os = ''SunOS'', compiler = ''sun-cc'', compiler_version = ''5'', compiler_cppstd = None\<rparr>
       = Inr []"
    "validate \<lparr>os = ''Linux'', compiler = ''gcc'', compiler_version = ''4.9'', compiler_cppstd = None\<rparr>
       = Inl ConanInvalidConfiguration"
    "validate \<lparr>os = ''Linux'', compiler = ''gcc'', compiler_version = ''10'', compiler_cppstd = None\<rparr>
       = Inr []"
    "validate \<lparr>os = ''Linux'', compiler = ''clang'', compiler_version = ''3.4.2'', compiler_cppstd = None\<rparr>
       = Inr []"
    "validate \<lparr>os = ''Windows'', compiler = ''Visual Studio'', compiler_version = ''14'', compiler_cppstd = None\<rparr>
       = Inl ConanInvalidConfiguration"
    by (simp_all add: validate_def minimum_compilers_version_def version_samples)
  show ?thesis
    using lazy_lt_semver_pieces [of cs1 cs2] lazy_lt_semver_numeric [of cs1 cs2] version_samples v
    by blast
qed

theorem lazy_lt_semver_lexicographic_witness:
  "list_all numeric ([''3'', ''3'', ''09''] @ [''3'', ''4'']) \<and>
   join ''.'' [''3'', ''3'', ''09''] = ''3.3.09'' \<and>
   lazy_lt_semver ''3.3.09'' ''3.4'' = Inr True \<and>
   list_all numeric ([''12'', ''0'', ''1''] @ [''9'', ''15'']) \<and>
   lazy_lt_semver ''12.0.1'' ''9.15'' = Inr False \<and>
   list_all (\<lambda>c. CHR ''.'' \<notin> set c) ([''5'', ''1-beta''] @ [''5'']) \<and>
   lazy_lt_semver ''5.1-beta'' ''5'' = Inl ValueError"
  using lazy_lt_semver_lexicographic [of "[''3'', ''3'', ''09'']" "[''3'', ''4'']"]
    lazy_lt_semver_lexicographic [of "[''12'', ''0'', ''1'']" "[''9'', ''15'']"]
    lazy_lt_semver_lexicographic [of "[''5'', ''1-beta'']" "[''5'']"]
  by (simp add: numeric_def decimal_digit_def decimal_value_def digit_of_def version_eval)

subsection \<open>The include directories\<close>

lemma backslash_special: "re_special backslash"
  by (simp add: re_special_def backslash_def)

lemma unescape_Cons: "c \<noteq> backslash \<Longrightarrow> unescape (c # cs) = c # unescape cs"
  by (cases cs) auto

lemma unescape_re_escape: "unescape (re_escape s) = s"
proof (induction s)
  case Nil
  then show ?case by simp
next
  case (Cons c cs)
  show ?case
  proof (cases "re_special c")
    case True
    with Cons show ?thesis by simp
  next
    case False
    then have "c \<noteq> backslash" using backslash_special by auto
    with False Cons show ?thesis by (simp add: unescape_Cons)
  qed
qed

lemma set_re_escape: "set (re_escape s) \<subseteq> insert backslash (set s)"
  by (induction s) auto

lemma semicolon_re_escape: "CHR '';'' \<in> set (re_escape s) \<longleftrightarrow> CHR '';'' \<in> set s"
proof
  assume "CHR '';'' \<in> set (re_escape s)"
  with set_re_escape [of s] show "CHR '';'' \<in> set s"
    by (auto simp add: backslash_def)
next
  show "CHR '';'' \<in> set s \<Longrightarrow> CHR '';'' \<in> set (re_escape s)"
    by (induction s) auto
qed

lemma re_escape_chars: "re_escape d = concat (map escape_char d)"
  by (induction d) (simp_all add: escape_char_def re_special_escaped backslash_def)

lemma generate_include_dirs:
  "deps ''robin-hood-hashing'' = Some dirs \<Longrightarrow>
   variable ''CUSTOM_INCLUDE_DIRS'' (generate opts deps)
     = Some (PyStr (join '';'' (map re_escape dirs)))"
  by (simp add: variable_def generate_table)

lemma read_back:
  assumes "dirs \<noteq> []" "list_all (\<lambda>d. CHR '';'' \<notin> set d) dirs"
  shows "map unescape (split_at CHR '';'' (join '';'' (map re_escape dirs))) = dirs"
proof -
  from assms have "list_all (\<lambda>d. CHR '';'' \<notin> set d) (map re_escape dirs)"
    by (simp add: list_all_iff semicolon_re_escape)
  with assms have "split_at CHR '';'' (join '';'' (map re_escape dirs)) = map re_escape dirs"
    by (intro split_at_join) simp_all
  then show ?thesis
    by (simp add: unescape_re_escape map_idI)
qed

lemma sample_lookup_dep: "sample_dependencies dirs ''robin-hood-hashing'' = Some dirs"
  by (simp add: sample_dependencies_def)

lemma escape_samples:
  "re_escape escaped_chars = concat (map (\<lambda>c. [CHR 0x5C, c]) escaped_chars)"
  "re_escape (''az09AZ_/:;,=@!%<>'' @ [CHR 0x22, CHR 0x27, CHR 0x60])
     = ''az09AZ_/:;,=@!%<>'' @ [CHR 0x22, CHR 0x27, CHR 0x60]"
  "join '';'' (map re_escape [''/opt/robin-hood/include'', ''/opt/my lib/inc'', ''C:/x(86)/a+b''])
     = ''/opt/robin'' @ CHR 0x5C # ''-hood/include;/opt/my'' @ CHR 0x5C # '' lib/inc;C:/x'' @
       CHR 0x5C # ''(86'' @ CHR 0x5C # '')/a'' @ CHR 0x5C # ''+b''"
  by code_simp+

text \<open>
  C6. The claim: \<open>CUSTOM_INCLUDE_DIRS\<close> is the list of include directories of
  the container dependency, each escaped for safe embedding, joined with a
  delimiter that is safe for paths. The delimiter is \<open>;\<close>, which the escaping
  leaves alone, so one directory with a \<open>;\<close> in it gives the value of two
  directories.
\<close>

theorem generate_custom_include_dirs_counterexample:
  "[''/opt/a;b/include''] \<noteq> [''/opt/a'', ''b/include''] \<and>
   variable ''CUSTOM_INCLUDE_DIRS''
     (generate default_options (sample_dependencies [''/opt/a;b/include'']))
     = Some (PyStr ''/opt/a;b/include'') \<and>
   variable ''CUSTOM_INCLUDE_DIRS''
     (generate default_options (sample_dependencies [''/opt/a'', ''b/include'']))
     = Some (PyStr ''/opt/a;b/include'')"
  by (simp add: generate_include_dirs sample_lookup_dep re_special_def)

text \<open>
  C6, as amended. \<open>CUSTOM_INCLUDE_DIRS\<close> is the include directories of the
  container dependency, each with a backslash put before every character of
  \<^verbatim>\<open>()[]{}?*+-|^$\.&~#\<close> and every ASCII white space and otherwise unchanged,
  joined with \<open>;\<close>. When the list is not empty and no directory holds a
  \<open>;\<close>, the list can be read back from the value.
\<close>

theorem generate_custom_include_dirs:
  "(deps ''robin-hood-hashing'' = Some dirs \<longrightarrow>
      (\<exists>v. variable ''CUSTOM_INCLUDE_DIRS'' (generate opts deps) = Some (PyStr v) \<and>
           v = join '';'' (map (\<lambda>d. concat (map escape_char d)) dirs) \<and>
           (dirs \<noteq> [] \<and> list_all (\<lambda>d. CHR '';'' \<notin> set d) dirs \<longrightarrow>
              map unescape (split_at CHR '';'' v) = dirs))) \<and>
   re_escape escaped_chars = concat (map (\<lambda>c. [CHR 0x5C, c]) escaped_chars) \<and>
   re_escape (''az09AZ_/:;,=@!%<>'' @ [CHR 0x22, CHR 0x27, CHR 0x60])
     = ''az09AZ_/:;,=@!%<>'' @ [CHR 0x22, CHR 0x27, CHR 0x60] \<and>
   variable ''CUSTOM_INCLUDE_DIRS''
     (generate default_options
        (sample_dependencies [''/opt/robin-hood/include'', ''/opt/my lib/inc'', ''C:/x(86)/a+b'']))
     = Some (PyStr (''/opt/robin'' @ CHR 0x5C # ''-hood/include;/opt/my'' @ CHR 0x5C #
                    '' lib/inc;C:/x'' @ CHR 0x5C # ''(86'' @ CHR 0x5C # '')/a'' @ CHR 0x5C # ''+b''))"
proof -
  have 1: "deps ''robin-hood-hashing'' = Some dirs \<longrightarrow>
      (\<exists>v. variable ''CUSTOM_INCLUDE_DIRS'' (generate opts deps) = Some (PyStr v) \<and>
           v = join '';'' (map (\<lambda>d. concat (map escape_char d)) dirs) \<and>
           (dirs \<noteq> [] \<and> list_all (\<lambda>d. CHR '';'' \<notin> set d) dirs \<longrightarrow>
              map unescape (split_at CHR '';'' v) = dirs))"
  proof
    assume d: "deps ''robin-hood-hashing'' = Some dirs"
    have e: "map (\<lambda>d. concat (map escape_char d)) dirs = map re_escape dirs"
      by (simp add: re_escape_chars)
    show "\<exists>v. variable ''CUSTOM_INCLUDE_DIRS'' (generate opts deps) = Some (PyStr v) \<and>
           v = join '';'' (map (\<lambda>d. concat (map escape_char d)) dirs) \<and>
           (dirs \<noteq> [] \<and> list_all (\<lambda>d. CHR '';'' \<notin> set d) dirs \<longrightarrow>
              map unescape (split_at CHR '';'' v) = dirs)"
      unfolding e using d generate_include_dirs [of deps dirs opts] read_back [of dirs] by blast
  qed
  have 2: "variable ''CUSTOM_INCLUDE_DIRS''
     (generate default_options
        (sample_dependencies [''/opt/robin-hood/include'', ''/opt/my lib/inc'', ''C:/x(86)/a+b'']))
     = Some (PyStr (''/opt/robin'' @ CHR 0x5C # ''-hood/include;/opt/my'' @ CHR 0x5C #
                    '' lib/inc;C:/x'' @ CHR 0x5C # ''(86'' @ CHR 0x5C # '')/a'' @ CHR 0x5C # ''+b''))"
    using generate_include_dirs [of "sample_dependencies [''/opt/robin-hood/include'', ''/opt/my lib/inc'', ''C:/x(86)/a+b'']"
        "[''/opt/robin-hood/include'', ''/opt/my lib/inc'', ''C:/x(86)/a+b'']" default_options]
    by (simp only: sample_lookup_dep escape_samples)
  from 1 2 escape_samples(1,2) show ?thesis by blast
qed

theorem generate_custom_include_dirs_witness:
  "sample_dependencies [''/opt/robin-hood/include'', ''/opt/my lib/inc'', ''C:/x(86)/a+b'']
     ''robin-hood-hashing''
     = Some [''/opt/robin-hood/include'', ''/opt/my lib/inc'', ''C:/x(86)/a+b''] \<and>
   list_all (\<lambda>d. CHR '';'' \<notin> set d)
     [''/opt/robin-hood/include'', ''/opt/my lib/inc'', ''C:/x(86)/a+b''] \<and>
   (\<exists>v. variable ''CUSTOM_INCLUDE_DIRS''
          (generate default_options
             (sample_dependencies
                [''/opt/robin-hood/include'', ''/opt/my lib/inc'', ''C:/x(86)/a+b'']))
          = Some (PyStr v) \<and>
        map unescape (split_at CHR '';'' v)
          = [''/opt/robin-hood/include'', ''/opt/my lib/inc'', ''C:/x(86)/a+b''])"
  using generate_custom_include_dirs [of
      "sample_dependencies [''/opt/robin-hood/include'', ''/opt/my lib/inc'', ''C:/x(86)/a+b'']"
      "[''/opt/robin-hood/include'', ''/opt/my lib/inc'', ''C:/x(86)/a+b'']" default_options]
  by (simp add: sample_lookup_dep)

subsection \<open>validate\<close>

lemma table_nonempty:
  "map_of minimum_compilers_version c = Some m \<Longrightarrow> m \<noteq> []"
  by (auto simp add: minimum_compilers_version_def split: if_splits)

lemma py_str_14: "py_str minimum_cpp_standard = ''14''"
  by code_simp

lemma cppstd_check_cases:
  "cppstd_check s =
     (case compiler_cppstd s of
        None \<Rightarrow> Inr ()
      | Some c \<Rightarrow> if c \<noteq> [] \<and> less_than c ''14'' then Inl ConanInvalidConfiguration else Inr ())"
  by (simp add: cppstd_check_def check_min_cppstd_def py_str_14 isdigit_def is_digit_def
        split: option.splits)

lemma validate_after_check:
  "validate s =
     (case cppstd_check s of
        Inl e \<Rightarrow> Inl e
      | Inr u \<Rightarrow>
          (case map_of minimum_compilers_version (compiler s) of
             None \<Rightarrow> Inr [lacks_information]
           | Some m \<Rightarrow>
               (case lazy_lt_semver (compiler_version s) m of
                  Inl e \<Rightarrow> Inl e
                | Inr lt \<Rightarrow> if lt then Inl ConanInvalidConfiguration else Inr [])))"
  by (auto simp add: validate_def cppstd_check_def Let_def dest: table_nonempty
        split: sum.splits option.splits)

lemma lazy_lt_semver_not_config:
  "lazy_lt_semver a b \<noteq> Inl ConanInvalidConfiguration"
  by (simp add: lazy_lt_semver_error)

lemma lt_11_14: "less_than ''11'' ''14''"
  by (simp add: less_than_def extract_cpp_version_def add_millennium_def str_lt_def)

lemma lt_17_14: "\<not> less_than ''17'' ''14''"
  by (simp add: less_than_def extract_cpp_version_def add_millennium_def str_lt_def)
text \<open>
  C5. The claim: validation fails with the configuration error exactly when the
  compiler is in the table and its version is below the minimum, and an unknown
  compiler gives a warning and no error. This fails where the language standard is
  set below 14: \<open>validate\<close> then raises the configuration error whatever the
  compiler is.
\<close>

theorem validate_cppstd_counterexample:
  "validate \<lparr>os = ''Linux'', compiler = ''gcc'', compiler_version = ''9'', compiler_cppstd = Some ''11''\<rparr>
     = Inl ConanInvalidConfiguration \<and>
   map_of minimum_compilers_version ''gcc'' = Some ''5'' \<and>
   lazy_lt_semver ''9'' ''5'' = Inr False \<and>
   validate \<lparr>os = ''Linux'', compiler = ''msvc'', compiler_version = ''193'', compiler_cppstd = Some ''11''\<rparr>
     = Inl ConanInvalidConfiguration \<and>
   map_of minimum_compilers_version ''msvc'' = None"
  by (simp add: validate_def check_min_cppstd_def py_str_14 isdigit_def minimum_compilers_version_def
       less_than_def extract_cpp_version_def add_millennium_def str_lt_def
       lazy_lt_semver_def py_int_def strip_def py_isspace_def unsigned_int_def int_max_str_digits_def is_digit_def digit_value_def)

text \<open>
  C5, as amended. When the check of the language standard passes (no standard set,
  or one that is not below 14), validation fails with the configuration error
  exactly when the compiler is in the table and its version is below the minimum
  under the truncated comparison, and for a compiler that is not in the table it
  writes the warning and returns without error. When the check does not pass, which
  is when a standard below 14 is set, validation fails with the configuration error.
\<close>

theorem validate_configuration_error:
  "(cppstd_check s = Inr () \<longrightarrow>
      (validate s = Inl ConanInvalidConfiguration \<longleftrightarrow>
         (\<exists>m. map_of minimum_compilers_version (compiler s) = Some m \<and>
              lazy_lt_semver (compiler_version s) m = Inr True)) \<and>
      (map_of minimum_compilers_version (compiler s) = None \<longrightarrow>
         validate s = Inr [lacks_information])) \<and>
   (cppstd_check s \<noteq> Inr () \<longrightarrow> validate s = Inl ConanInvalidConfiguration) \<and>
   (cppstd_check s \<noteq> Inr () \<longleftrightarrow>
      (\<exists>c. compiler_cppstd s = Some c \<and> c \<noteq> [] \<and> less_than c ''14''))"
proof -
  have 1: "cppstd_check s = Inr () \<longrightarrow>
      (validate s = Inl ConanInvalidConfiguration \<longleftrightarrow>
         (\<exists>m. map_of minimum_compilers_version (compiler s) = Some m \<and>
              lazy_lt_semver (compiler_version s) m = Inr True))"
    by (auto simp add: validate_after_check lazy_lt_semver_not_config
          split: option.splits sum.splits)
  have 2: "cppstd_check s = Inr () \<longrightarrow> map_of minimum_compilers_version (compiler s) = None \<longrightarrow>
         validate s = Inr [lacks_information]"
    by (simp add: validate_after_check)
  have 3: "cppstd_check s \<noteq> Inr () \<longrightarrow> validate s = Inl ConanInvalidConfiguration"
    by (auto simp add: validate_after_check cppstd_check_cases split: option.splits if_splits)
  have 4: "cppstd_check s \<noteq> Inr () \<longleftrightarrow>
      (\<exists>c. compiler_cppstd s = Some c \<and> c \<noteq> [] \<and> less_than c ''14'')"
    by (auto simp add: cppstd_check_cases split: option.splits)
  from 1 2 3 4 show ?thesis by blast
qed

theorem validate_configuration_error_witness:
  "cppstd_check \<lparr>os = ''Linux'', compiler = ''gcc'', compiler_version = ''4.9'', compiler_cppstd = Some ''17''\<rparr> = Inr () \<and>
   validate \<lparr>os = ''Linux'', compiler = ''gcc'', compiler_version = ''4.9'', compiler_cppstd = Some ''17''\<rparr> = Inl ConanInvalidConfiguration \<and>
   cppstd_check \<lparr>os = ''Linux'', compiler = ''msvc'', compiler_version = ''193'', compiler_cppstd = None\<rparr> = Inr () \<and>
   map_of minimum_compilers_version ''msvc'' = None \<and>
   validate \<lparr>os = ''Linux'', compiler = ''msvc'', compiler_version = ''193'', compiler_cppstd = None\<rparr> = Inr [lacks_information] \<and>
   cppstd_check \<lparr>os = ''Linux'', compiler = ''gcc'', compiler_version = ''9'', compiler_cppstd = Some ''11''\<rparr> \<noteq> Inr () \<and>
   validate \<lparr>os = ''Linux'', compiler = ''gcc'', compiler_version = ''9'', compiler_cppstd = Some ''11''\<rparr> = Inl ConanInvalidConfiguration"
  using validate_configuration_error [of "\<lparr>os = ''Linux'', compiler = ''gcc'', compiler_version = ''4.9'', compiler_cppstd = Some ''17''\<rparr>"]
   validate_configuration_error [of "\<lparr>os = ''Linux'', compiler = ''msvc'', compiler_version = ''193'', compiler_cppstd = None\<rparr>"]
   validate_configuration_error [of "\<lparr>os = ''Linux'', compiler = ''gcc'', compiler_version = ''9'', compiler_cppstd = Some ''11''\<rparr>"]
  by (simp add: cppstd_check_cases lt_11_14 lt_17_14 minimum_compilers_version_def
        lazy_lt_semver_def py_int_def strip_def py_isspace_def unsigned_int_def int_max_str_digits_def is_digit_def digit_value_def)

subsection \<open>When the comparison raises\<close>





lemma rev_split: "xs = rev (dropWhile P (rev xs)) @ rev (takeWhile P (rev xs))"
  by (metis rev_append rev_rev_ident takeWhile_dropWhile_id)


lemma strip_hd: "strip s \<noteq> [] \<Longrightarrow> \<not> py_isspace (hd (strip s))"
proof -
  assume ne: "strip s \<noteq> []"
  define t where "t = dropWhile py_isspace s"
  have 2: "t = strip s @ rev (takeWhile py_isspace (rev t))"
    unfolding strip_def t_def by (rule rev_split)
  with ne have "hd t = hd (strip s)" by (metis hd_append2)
  moreover from 2 ne have "t \<noteq> []" by auto
  then have "\<not> py_isspace (hd t)" unfolding t_def by (rule hd_dropWhile)
  ultimately show ?thesis by simp
qed

lemma strip_last: "strip s \<noteq> [] \<Longrightarrow> \<not> py_isspace (last (strip s))"
proof -
  assume ne: "strip s \<noteq> []"
  then have "dropWhile py_isspace (rev (dropWhile py_isspace s)) \<noteq> []"
    by (simp add: strip_def)
  then have "\<not> py_isspace (hd (dropWhile py_isspace (rev (dropWhile py_isspace s))))"
    by (rule hd_dropWhile)
  with ne show ?thesis
    by (simp add: strip_def last_rev)
qed











subsection \<open>Replacing text\<close>

lemma overlap_iff: "overlap xs ys \<longleftrightarrow> (\<exists>z. z \<noteq> [] \<and> suffix z xs \<and> prefix z ys)"
proof (induction xs)
  case Nil
  then show ?case by simp
next
  case (Cons x xs)
  show ?case
  proof
    assume "overlap (x # xs) ys"
    then consider "prefix (x # xs) ys" | "overlap xs ys" by auto
    then show "\<exists>z. z \<noteq> [] \<and> suffix z (x # xs) \<and> prefix z ys"
    proof cases
      case 1
      then show ?thesis by (intro exI [of _ "x # xs"]) simp
    next
      case 2
      with Cons obtain z where "z \<noteq> []" "suffix z xs" "prefix z ys" by auto
      then show ?thesis by (auto intro: suffix_ConsI)
    qed
  next
    assume "\<exists>z. z \<noteq> [] \<and> suffix z (x # xs) \<and> prefix z ys"
    then obtain z where z: "z \<noteq> []" "suffix z (x # xs)" "prefix z ys" by auto
    from z(2) have "z = x # xs \<or> suffix z xs" by (auto simp add: suffix_Cons)
    with z Cons show "overlap (x # xs) ys" by auto
  qed
qed

lemma prefix_str_replace:
  "key \<noteq> [] \<Longrightarrow> \<not> sublist val K \<Longrightarrow> \<not> overlap K val \<Longrightarrow> suffix K2 K \<Longrightarrow>
   prefix K2 (str_replace key val s) \<Longrightarrow> prefix K2 s"
proof (induction key val s arbitrary: K2 rule: str_replace.induct)
  case (1 search repl)
  then show ?case by simp
next
  case (2 search repl c cs)
  show ?case
  proof (cases "K2 = []")
    case True
    then show ?thesis by simp
  next
    case ne: False
    show ?thesis
    proof (cases "prefix search (c # cs)")
      case True
      with 2 have "prefix K2 (repl @ str_replace search repl (drop (length search) (c # cs)))"
        by simp
      then consider "prefix K2 repl" | us where "K2 = repl @ us"
        by (auto simp add: prefix_append)
      then show ?thesis
      proof cases
        case 1
        with ne \<open>suffix K2 K\<close> have "overlap K repl"
          by (auto simp add: overlap_iff)
        with 2 show ?thesis by simp
      next
        case 2
        with \<open>suffix K2 K\<close> have "sublist repl K"
          by (auto simp add: suffix_def sublist_def)
        with \<open>\<not> sublist repl K\<close> show ?thesis by simp
      qed
    next
      case False
      with 2 have p: "prefix K2 (c # str_replace search repl cs)" by simp
      with ne obtain K3 where K3: "K2 = c # K3" "prefix K3 (str_replace search repl cs)"
        by (cases K2) auto
      with \<open>suffix K2 K\<close> have "suffix K3 K" by (auto dest: suffix_ConsD)
      with 2 False K3 have "prefix K3 cs" by simp
      with K3 show ?thesis by simp
    qed
  qed
qed

lemma sublist_str_replace:
  "key \<noteq> [] \<Longrightarrow> K \<noteq> [] \<Longrightarrow> clean K val \<Longrightarrow> sublist K (str_replace key val s) \<Longrightarrow>
   \<exists>u. suffix u s \<and> prefix K u \<and> \<not> prefix key u"
proof (induction key val s rule: str_replace.induct)
  case (1 search repl)
  then show ?case by simp
next
  case (2 search repl c cs)
  from \<open>clean K repl\<close> have cl: "\<not> sublist K repl" "\<not> sublist repl K" "\<not> overlap repl K" "\<not> overlap K repl"
    by (auto simp add: clean_def)
  show ?case
  proof (cases "prefix search (c # cs)")
    case True
    with 2 have "sublist K (repl @ str_replace search repl (drop (length search) (c # cs)))"
      by simp
    then consider "sublist K repl" | "sublist K (str_replace search repl (drop (length search) (c # cs)))"
      | xs1 xs2 where "K = xs1 @ xs2" "suffix xs1 repl" "prefix xs2 (str_replace search repl (drop (length search) (c # cs)))"
      by (auto simp add: sublist_append)
    then show ?thesis
    proof cases
      case 1
      with cl show ?thesis by simp
    next
      case 2
      with "2.IH"(2) "2.prems" True obtain u where
        "suffix u (drop (length search) (c # cs))" "prefix K u" "\<not> prefix search u"
        by auto
      moreover have "suffix (drop (length search) (c # cs)) (c # cs)" by (rule suffix_drop)
      ultimately show ?thesis by (meson suffix_order.trans)
    next
      case 3
      show ?thesis
      proof (cases "xs1 = []")
        case True
        with 3 have "prefix K (str_replace search repl (drop (length search) (c # cs)))" by simp
        then have "sublist K (str_replace search repl (drop (length search) (c # cs)))" by simp
        with "2.IH"(2) "2.prems" \<open>prefix search (c # cs)\<close> obtain u where
          "suffix u (drop (length search) (c # cs))" "prefix K u" "\<not> prefix search u"
          by auto
        moreover have "suffix (drop (length search) (c # cs)) (c # cs)" by (rule suffix_drop)
        ultimately show ?thesis by (meson suffix_order.trans)
      next
        case False
        with 3 have "overlap repl K" by (auto simp add: overlap_iff)
        with cl show ?thesis by simp
      qed
    qed
  next
    case False
    with 2 have "sublist K (c # str_replace search repl cs)" by simp
    then consider "prefix K (c # str_replace search repl cs)" | "sublist K (str_replace search repl cs)"
      by (auto simp add: sublist_Cons_right)
    then show ?thesis
    proof cases
      case 1
      with False "2.prems" have "prefix K (str_replace search repl (c # cs))" by simp
      with cl "2.prems" have "prefix K (c # cs)"
        by (intro prefix_str_replace [of search repl K K "c # cs"]) auto
      with False show ?thesis by (intro exI [of _ "c # cs"]) simp
    next
      case 2
      with "2.IH"(3) "2.prems" False obtain u where "suffix u cs" "prefix K u" "\<not> prefix search u"
        by auto
      then show ?thesis by (auto intro: suffix_ConsI)
    qed
  qed
qed

lemma sublist_altdef2: "suffix u s \<Longrightarrow> prefix K u \<Longrightarrow> sublist K s"
  by (auto simp add: sublist_altdef')

lemma str_replace_keeps_absent:
  "key \<noteq> [] \<Longrightarrow> K \<noteq> [] \<Longrightarrow> clean K val \<Longrightarrow> \<not> sublist K s \<Longrightarrow> \<not> sublist K (str_replace key val s)"
  using sublist_str_replace sublist_altdef2 by blast

lemma str_replace_removes:
  "key \<noteq> [] \<Longrightarrow> clean key val \<Longrightarrow> \<not> sublist key (str_replace key val s)"
  using sublist_str_replace [of key key val s] by blast

lemma str_replace_absent:
  "key \<noteq> [] \<Longrightarrow> \<not> sublist key s \<Longrightarrow> str_replace key val s = s"
  by (induction s) (auto simp add: sublist_Cons_right)

lemma str_find_ge: "- 1 \<le> str_find s key"
  by (induction s) (auto simp add: Let_def)

lemma str_find_absent: "- 1 = str_find s key \<longleftrightarrow> \<not> sublist key s"
proof (induction s)
  case Nil
  then show ?case by auto
next
  case (Cons c cs)
  have "str_find cs key + 1 \<noteq> - 1 \<or> str_find cs key = - 1"
    using str_find_ge [of cs key] by arith
  with Cons show ?case
    by (auto simp add: Let_def sublist_Cons_right)
qed

lemma apply_items_Cons:
  "apply_items ((k, v) # items) c = apply_items items (str_replace k v c)"
  by (simp add: apply_items_def)

lemma apply_items_Nil: "apply_items [] c = c"
  by (simp add: apply_items_def)

lemma apply_items_keeps_absent:
  "K \<noteq> [] \<Longrightarrow> \<forall>(k, v) \<in> set items. k \<noteq> [] \<and> clean K v \<Longrightarrow> \<not> sublist K c \<Longrightarrow>
   \<not> sublist K (apply_items items c)"
proof (induction items arbitrary: c)
  case Nil
  then show ?case by (simp add: apply_items_Nil)
next
  case (Cons kv items)
  obtain k v where kv: "kv = (k, v)" by (cases kv)
  with Cons.prems have "\<not> sublist K (str_replace k v c)"
    using str_replace_keeps_absent [of k K v c] by auto
  with Cons kv show ?case
    by (simp add: apply_items_Cons)
qed

lemma apply_items_removes:
  "\<forall>(k, v) \<in> set items. k \<noteq> [] \<and> (\<forall>(k', v') \<in> set items. clean k v') \<Longrightarrow>
   \<forall>(k, v) \<in> set items. \<not> sublist k (apply_items items c)"
proof (induction items arbitrary: c)
  case Nil
  then show ?case by simp
next
  case (Cons kv items)
  obtain k v where kv: "kv = (k, v)" by (cases kv)
  from Cons.prems kv have k: "k \<noteq> []" "clean k v"
    and rest: "\<forall>(k', v') \<in> set items. k' \<noteq> [] \<and> clean k v'"
    by auto
  from k have "\<not> sublist k (str_replace k v c)"
    by (rule str_replace_removes)
  with k rest have head: "\<not> sublist k (apply_items items (str_replace k v c))"
    by (intro apply_items_keeps_absent) auto
  from Cons.prems have "\<forall>(k, v) \<in> set items. k \<noteq> [] \<and> (\<forall>(k', v') \<in> set items. clean k v')"
    by auto
  from Cons.IH [OF this] have "\<forall>(k', v') \<in> set items. \<not> sublist k' (apply_items items (str_replace k v c))" .
  with head kv show ?case
    by (simp add: apply_items_Cons)
qed

lemma apply_items_absent:
  "\<forall>(k, v) \<in> set items. k \<noteq> [] \<and> \<not> sublist k c \<Longrightarrow> apply_items items c = c"
proof (induction items)
  case Nil
  then show ?case by (simp add: apply_items_Nil)
next
  case (Cons kv items)
  obtain k v where kv: "kv = (k, v)" by (cases kv)
  with Cons.prems have "str_replace k v c = c"
    by (auto intro: str_replace_absent)
  with Cons kv show ?case
    by (simp add: apply_items_Cons)
qed

lemma apply_items_idem:
  assumes "\<forall>(k, v) \<in> set items. k \<noteq> [] \<and> (\<forall>(k', v') \<in> set items. clean k v')"
  shows "apply_items items (apply_items items c) = apply_items items c"
proof -
  from apply_items_removes [OF assms, of c] assms
  have "\<forall>(k, v) \<in> set items. k \<noteq> [] \<and> \<not> sublist k (apply_items items c)"
    by fastforce
  then show ?thesis by (rule apply_items_absent)
qed

lemma replace_mapping_clean:
  "list_all (\<lambda>(k, v). k \<noteq> [] \<and> list_all (\<lambda>(k', v'). clean k v') replace_mapping) replace_mapping"
  by code_simp

lemma robin_hood_clean:
  "robin_hood_search \<noteq> [] \<and> clean robin_hood_search robin_hood_replace"
  by code_simp

subsection \<open>Patching twice\<close>

lemma replace_in_file_lenient:
  "fs p = Some c \<Longrightarrow> key \<noteq> [] \<Longrightarrow>
   replace_in_file fs p key val False = Inr (fs(p \<mapsto> str_replace key val c))"
  by (auto simp add: replace_in_file_def str_find_absent str_replace_absent map_upd_triv)

lemma replace_in_file_strict:
  "fs p = Some c \<Longrightarrow> key \<noteq> [] \<Longrightarrow>
   replace_in_file fs p key val True =
     (if sublist key c then Inr (fs(p \<mapsto> str_replace key val c)) else Inl ConanException)"
  by (auto simp add: replace_in_file_def str_find_absent)

lemma replace_in_file_missing:
  "fs p = None \<Longrightarrow> replace_in_file fs p key val strict = Inl FileNotFoundError"
  by (simp add: replace_in_file_def)

lemma replace_items_present:
  "fs p = Some c \<Longrightarrow> \<forall>(k, v) \<in> set items. k \<noteq> [] \<Longrightarrow>
   replace_items p items fs = (fs(p \<mapsto> apply_items items c), None)"
proof (induction items arbitrary: fs c)
  case Nil
  then show ?case by (simp add: apply_items_Nil map_upd_triv)
next
  case (Cons kv items)
  obtain k v where kv: "kv = (k, v)" by (cases kv)
  with Cons.prems have 1: "replace_in_file fs p k v False = Inr (fs(p \<mapsto> str_replace k v c))"
    by (auto simp add: replace_in_file_lenient)
  have "replace_items p items (fs(p \<mapsto> str_replace k v c)) =
          ((fs(p \<mapsto> str_replace k v c))(p \<mapsto> apply_items items (str_replace k v c)), None)"
    using Cons.prems by (intro Cons.IH) auto
  then have 2: "replace_items p items (fs(p \<mapsto> str_replace k v c)) =
          (fs(p \<mapsto> apply_items items (str_replace k v c)), None)"
    by simp
  have "replace_items p ((k, v) # items) fs =
          replace_items p items (fs(p \<mapsto> str_replace k v c))"
    by (simp add: 1)
  also note 2
  finally show ?case
    by (simp only: kv apply_items_Cons)
qed

lemma replace_items_missing:
  "fs p = None \<Longrightarrow> items \<noteq> [] \<Longrightarrow> replace_items p items fs = (fs, Some FileNotFoundError)"
  by (cases items) (auto simp add: replace_in_file_missing)

lemma last_path_join: "b \<noteq> [] \<Longrightarrow> last (path_join a b) = last b"
  by (simp add: path_join_def)

lemma paths_differ: "cmakelists_path sf \<noteq> config_path sf"
proof
  assume "cmakelists_path sf = config_path sf"
  then have "last (cmakelists_path sf) = last (config_path sf)" by simp
  then show False
    by (simp add: cmakelists_path_def config_path_def last_path_join)
qed

lemma replace_mapping_keys: "\<forall>(k, v) \<in> set replace_mapping. k \<noteq> []"
  using replace_mapping_clean by (auto simp add: list_all_iff)

lemma replace_mapping_idem:
  "apply_items replace_mapping (apply_items replace_mapping c) = apply_items replace_mapping c"
  using replace_mapping_clean by (intro apply_items_idem) (auto simp add: list_all_iff)

lemma replace_mapping_ne: "replace_mapping \<noteq> []"
  by (simp add: replace_mapping_def)

lemma patch_sources_eq:
  "patch_sources sf opts fs =
     (case fs (cmakelists_path sf) of
        None \<Rightarrow> (fs, Some FileNotFoundError)
      | Some c \<Rightarrow>
          (let fs' = fs(cmakelists_path sf \<mapsto> apply_items replace_mapping c)
           in if \<not> with_thirdparty_containers opts then (fs', None)
              else (case fs (config_path sf) of
                      None \<Rightarrow> (fs', Some FileNotFoundError)
                    | Some h \<Rightarrow>
                        if sublist robin_hood_search h
                        then (fs'(config_path sf \<mapsto> str_replace robin_hood_search robin_hood_replace h), None)
                        else (fs', Some ConanException))))"
proof (cases "fs (cmakelists_path sf)")
  case None
  then show ?thesis
    by (simp add: patch_sources_def cmakelists_path_def [symmetric] replace_items_missing
          replace_mapping_ne)
next
  case (Some c)
  then have 1: "replace_items (cmakelists_path sf) replace_mapping fs =
                  (fs(cmakelists_path sf \<mapsto> apply_items replace_mapping c), None)"
    using replace_mapping_keys by (rule replace_items_present)
  show ?thesis
  proof (cases "fs (config_path sf)")
    case None
    with Some 1 paths_differ [of sf] show ?thesis
      by (simp add: patch_sources_def cmakelists_path_def [symmetric] config_path_def [symmetric]
            opt_bool_def replace_in_file_missing Let_def)
  next
    case h: (Some h)
    with Some 1 paths_differ [of sf] robin_hood_clean show ?thesis
      by (simp add: patch_sources_def cmakelists_path_def [symmetric] config_path_def [symmetric]
            opt_bool_def replace_in_file_strict Let_def)
  qed
qed

lemma patch_sources_twice_cases:
  "fst (patch_sources sf opts (fst (patch_sources sf opts fs))) = fst (patch_sources sf opts fs) \<and>
   (\<not> with_thirdparty_containers opts \<longrightarrow>
      snd (patch_sources sf opts (fst (patch_sources sf opts fs))) = snd (patch_sources sf opts fs)) \<and>
   (with_thirdparty_containers opts \<longrightarrow> snd (patch_sources sf opts fs) = None \<longrightarrow>
      snd (patch_sources sf opts (fst (patch_sources sf opts fs))) = Some ConanException)"
proof (cases "fs (cmakelists_path sf)")
  case None
  then show ?thesis by (simp add: patch_sources_eq)
next
  case (Some c)
  define fs' where "fs' = fs(cmakelists_path sf \<mapsto> apply_items replace_mapping c)"
  have c': "fs' (cmakelists_path sf) = Some (apply_items replace_mapping c)"
    by (simp add: fs'_def)
  have same: "fs'(cmakelists_path sf \<mapsto> apply_items replace_mapping (apply_items replace_mapping c)) = fs'"
    by (simp add: replace_mapping_idem fs'_def)
  have h': "fs' (config_path sf) = fs (config_path sf)"
    using paths_differ [of sf] by (simp add: fs'_def)
  show ?thesis
  proof (cases "with_thirdparty_containers opts")
    case False
    with Some c' same show ?thesis
      by (simp add: patch_sources_eq fs'_def [symmetric] Let_def)
  next
    case True
    show ?thesis
    proof (cases "fs (config_path sf)")
      case None
      with Some True c' same h' show ?thesis
        by (simp add: patch_sources_eq fs'_def [symmetric] Let_def)
    next
      case h: (Some h)
      show ?thesis
      proof (cases "sublist robin_hood_search h")
        case False
        with Some True c' same h' h show ?thesis
          by (simp add: patch_sources_eq fs'_def [symmetric] Let_def)
      next
        case found: True
        define fs'' where "fs'' = fs'(config_path sf \<mapsto> str_replace robin_hood_search robin_hood_replace h)"
        have 1: "patch_sources sf opts fs = (fs'', None)"
          using Some True h found by (simp add: patch_sources_eq fs'_def fs''_def Let_def)
        have a: "fs'' (cmakelists_path sf) = Some (apply_items replace_mapping c)"
          using paths_differ [of sf] by (simp add: fs''_def fs'_def)
        have b: "fs''(cmakelists_path sf \<mapsto> apply_items replace_mapping (apply_items replace_mapping c)) = fs''"
          using a by (simp add: replace_mapping_idem map_upd_triv)
        have d: "fs'' (config_path sf) = Some (str_replace robin_hood_search robin_hood_replace h)"
          by (simp add: fs''_def)
        have e: "\<not> sublist robin_hood_search (str_replace robin_hood_search robin_hood_replace h)"
          using robin_hood_clean by (simp add: str_replace_removes)
        have 2: "patch_sources sf opts fs'' = (fs'', Some ConanException)"
          using True a b d e by (simp add: patch_sources_eq [of sf opts fs''] Let_def)
        from 1 2 True show ?thesis by simp
      qed
    qed
  qed
qed

lemma patch_sources_files_twice:
  "fst (patch_sources sf opts (fst (patch_sources sf opts fs))) = fst (patch_sources sf opts fs)"
  using patch_sources_twice_cases by blast

lemma patch_sources_lenient_error:
  "\<not> with_thirdparty_containers opts \<Longrightarrow>
   snd (patch_sources sf opts (fst (patch_sources sf opts fs))) = snd (patch_sources sf opts fs)"
  using patch_sources_twice_cases by blast

lemma patch_sources_strict_again:
  "with_thirdparty_containers opts \<Longrightarrow> snd (patch_sources sf opts fs) = None \<Longrightarrow>
   snd (patch_sources sf opts (fst (patch_sources sf opts fs))) = Some ConanException"
  using patch_sources_twice_cases by blast

lemma sample_paths:
  "cmakelists_path ''src'' = ''src/CMakeLists.txt''"
  "config_path ''src'' = ''src/Include/RmlUi/Config/Config.h''"
  by (simp_all add: cmakelists_path_def config_path_def path_join_def)

lemma sample_patched: "apply_items replace_mapping ''if(FREETYPE_FOUND)'' = ''if(Freetype_FOUND)''"
  by code_simp

lemma sample_header:
  "str_replace robin_hood_search robin_hood_replace sample_config_h = ''#include <robin_hood.h>''"
  by code_simp

lemma sample_header_found: "sublist robin_hood_search sample_config_h"
  unfolding sample_config_h_def by (rule sublist_append_leftI)

lemma sample_lookup:
  "sample_files ''src/CMakeLists.txt'' = Some ''if(FREETYPE_FOUND)''"
  "sample_files ''src/Include/RmlUi/Config/Config.h'' = Some sample_config_h"
  by (simp_all add: sample_files_def)

lemma sample_first:
  "snd (patch_sources ''src'' opts sample_files) = None"
  "fst (patch_sources ''src'' opts sample_files) ''src/CMakeLists.txt'' = Some ''if(Freetype_FOUND)''"
  "fst (patch_sources ''src'' opts sample_files) ''src/Include/RmlUi/Config/Config.h'' =
     Some (if with_thirdparty_containers opts then ''#include <robin_hood.h>''
           else sample_config_h)"
  by (simp_all add: patch_sources_eq sample_paths sample_lookup sample_patched sample_header sample_header_found Let_def)

text \<open>
  C2. The claim: for either value of \<open>with_thirdparty_containers\<close>, applying the
  patches twice gives the file contents of applying them once, and the second
  application completes without error. With \<open>with_thirdparty_containers\<close> set,
  the second application raises: the rule for the header is strict, and the first
  application has removed the text it searches for.
\<close>

theorem patch_sources_twice_counterexample:
  "with_thirdparty_containers default_options \<and>
   snd (patch_sources ''src'' default_options sample_files) = None \<and>
   fst (patch_sources ''src'' default_options sample_files) ''src/CMakeLists.txt''
     = Some ''if(Freetype_FOUND)'' \<and>
   fst (patch_sources ''src'' default_options sample_files) ''src/Include/RmlUi/Config/Config.h''
     = Some ''#include <robin_hood.h>'' \<and>
   snd (patch_sources ''src'' default_options
          (fst (patch_sources ''src'' default_options sample_files))) = Some ConanException"
proof -
  have 1: "with_thirdparty_containers default_options"
    by (simp add: default_options_def)
  have 2: "snd (patch_sources ''src'' default_options sample_files) = None"
    by (rule sample_first)
  from 1 2 have "snd (patch_sources ''src'' default_options
          (fst (patch_sources ''src'' default_options sample_files))) = Some ConanException"
    by (rule patch_sources_strict_again)
  with 1 2 sample_first(2,3) [of default_options] show ?thesis by simp
qed

text \<open>
  C2, as amended. For either value of \<open>with_thirdparty_containers\<close>, applying the
  patches twice leaves the file contents of applying them once. When the option is
  false the second application ends as the first one did, so without error when
  the first completed. When the option is true and the first application completed,
  the second one raises.
\<close>

theorem patch_sources_twice:
  "fst (patch_sources sf opts (fst (patch_sources sf opts fs))) = fst (patch_sources sf opts fs) \<and>
   (\<not> with_thirdparty_containers opts \<longrightarrow>
      snd (patch_sources sf opts (fst (patch_sources sf opts fs))) = snd (patch_sources sf opts fs)) \<and>
   (with_thirdparty_containers opts \<longrightarrow> snd (patch_sources sf opts fs) = None \<longrightarrow>
      snd (patch_sources sf opts (fst (patch_sources sf opts fs))) = Some ConanException)"
  using patch_sources_files_twice patch_sources_lenient_error patch_sources_strict_again
  by blast

theorem patch_sources_twice_witness:
  "\<not> with_thirdparty_containers (default_options\<lparr>with_thirdparty_containers := False\<rparr>) \<and>
   snd (patch_sources ''src'' (default_options\<lparr>with_thirdparty_containers := False\<rparr>)
          sample_files) = None \<and>
   snd (patch_sources ''src'' (default_options\<lparr>with_thirdparty_containers := False\<rparr>)
          (fst (patch_sources ''src'' (default_options\<lparr>with_thirdparty_containers := False\<rparr>)
                  sample_files))) = None \<and>
   with_thirdparty_containers default_options \<and>
   snd (patch_sources ''src'' default_options sample_files) = None \<and>
   snd (patch_sources ''src'' default_options
          (fst (patch_sources ''src'' default_options sample_files))) = Some ConanException \<and>
   fst (patch_sources ''src'' default_options
          (fst (patch_sources ''src'' default_options sample_files)))
     = fst (patch_sources ''src'' default_options sample_files)"
  using
    patch_sources_twice [of "''src''" "default_options\<lparr>with_thirdparty_containers := False\<rparr>"
      sample_files]
    patch_sources_twice [of "''src''" default_options sample_files]
  by (simp add: sample_first default_options_def)

end
